theory Spec2Isabelle
  imports Complex_Main "HOL-Library.AList" "HOL-Library.Multiset" "HOL-Library.Word"
    "HOL-Library.Log_Nat" "HOL-Library.Product_Lexorder" "HOL-Library.List_Lexorder"
    "HOL-Library.Char_ord" "HOL-Library.Option_ord"
begin

section \<open>Data model\<close>

text \<open>
  The declarations of \<^verbatim>\<open>@/lib/types\<close> (Issue, IssueData, CommentData, AppUser) are not
  among the source files; the records below are modelled from the spec's data model
  (section 3) and from the fields the service and page code reads and writes.

  A JavaScript \<^verbatim>\<open>Date\<close> is its \<^verbatim>\<open>getTime()\<close> value, an integer number of milliseconds.
  The store's timestamp type is the type parameter \<open>'t\<close>; its conversion \<^verbatim>\<open>toDate()\<close> belongs
  to the store's client library and is a parameter \<open>toDate\<close> of every function that calls it.

  Text entered by a user (titles, descriptions, categories, addresses, names, comment
  text, and the image reference built from a title) is a JavaScript string, a list of
  UTF-16 code units; \<open>js\<close> writes such a string from its Latin-1 text. Identifiers of
  documents, users and comments are plain strings.
\<close>

type_synonym Date = int

type_synonym jsstring = "16 word list"

definition js :: "string \<Rightarrow> jsstring" where
  "js s = map of_char s"

datatype status = Recebido | Em_analise | Resolvido

datatype role = User | Admin

datatype error =
    Titulo_obrigatorio
  | Descricao_obrigatoria
  | Endereco_obrigatorio
  | ID_do_relator_obrigatorio
  | Localizacao_invalida
  | Ocorrencia_nao_encontrada
  | TypeError
  | URIError
  | Invalid_argument
  | Store_rejected

record GeoPoint =
  latitude :: real
  longitude :: real

record LatLng =
  lat :: real
  lng :: real

record 't CommentData =
  comment_id :: string
  content :: jsstring
  author :: jsstring
  authorId :: string
  authorPhotoURL :: "string option"
  authorRole :: role
  createdAt :: 't

type_synonym Comment = "Date CommentData"

text \<open>
  Modelled from the spec: the raw persisted record (IssueData). The three fields that
  \<^verbatim>\<open>fromFirestore\<close> itself guards (\<^verbatim>\<open>data.reportedAt ? ... : ...\<close>, \<^verbatim>\<open>data.upvotes || 0\<close>,
  \<^verbatim>\<open>data.comments || []\<close>) may be absent (\<open>None\<close>); the fields it reads unguarded are present.
\<close>

record 't IssueData =
  title :: jsstring
  description :: jsstring
  category :: jsstring
  status :: status
  location :: GeoPoint
  address :: jsstring
  imageUrl :: jsstring
  reportedAt :: "'t option"
  reporter :: jsstring
  reporterId :: string
  upvotes :: "int option"
  comments :: "'t CommentData list option"

text \<open>Modelled from the spec: the domain object (Issue).\<close>

record Issue =
  issue_id :: string
  title :: jsstring
  description :: jsstring
  category :: jsstring
  status :: status
  location :: LatLng
  address :: jsstring
  imageUrl :: jsstring
  reportedAt :: Date
  reporter :: jsstring
  reporterId :: string
  upvotes :: int
  comments :: "Comment list"

section \<open>Issue normalizer (\<^verbatim>\<open>fromFirestore\<close>)\<close>

text \<open>
  \<^verbatim>\<open>{...comment, createdAt: (comment.createdAt as Timestamp).toDate()}\<close>: every field is
  copied and the creation time converted.
\<close>

definition convertComment :: "('t \<Rightarrow> Date) \<Rightarrow> 't CommentData \<Rightarrow> Comment" where
  "convertComment toDate c =
     \<lparr> comment_id = comment_id c, content = content c, author = author c,
       authorId = authorId c, authorPhotoURL = authorPhotoURL c,
       authorRole = authorRole c, createdAt = toDate (createdAt c) \<rparr>"

text \<open>
  \<^verbatim>\<open>.sort((a, b) => b.createdAt.getTime() - a.createdAt.getTime())\<close>: \<^verbatim>\<open>Array.prototype.sort\<close>
  is stable, and so is the insertion sort \<open>sort_key\<close>; the comparator orders by descending
  time, that is by ascending negated time.
\<close>

definition sortComments :: "Comment list \<Rightarrow> Comment list" where
  "sortComments cs = sort_key (\<lambda>c. - createdAt c) cs"

text \<open>
  \<open>now\<close> is the value of \<^verbatim>\<open>new Date()\<close> at the time of the call.
\<close>

definition fromFirestore :: "('t \<Rightarrow> Date) \<Rightarrow> Date \<Rightarrow> 't IssueData \<Rightarrow> string \<Rightarrow> Issue" where
  "fromFirestore toDate now data i =
     \<lparr> issue_id = i,
       Issue.title = IssueData.title data,
       Issue.description = IssueData.description data,
       Issue.category = IssueData.category data,
       Issue.status = IssueData.status data,
       Issue.location = \<lparr> lat = latitude (IssueData.location data),
                           lng = longitude (IssueData.location data) \<rparr>,
       Issue.address = IssueData.address data,
       Issue.imageUrl = IssueData.imageUrl data,
       Issue.reportedAt = (case IssueData.reportedAt data of Some t \<Rightarrow> toDate t | None \<Rightarrow> now),
       Issue.reporter = IssueData.reporter data,
       Issue.reporterId = IssueData.reporterId data,
       Issue.upvotes = (case IssueData.upvotes data of
                          Some n \<Rightarrow> (if n \<noteq> 0 then n else 0) | None \<Rightarrow> 0),
       Issue.comments = sortComments (map (convertComment toDate)
                          (case IssueData.comments data of Some cs \<Rightarrow> cs | None \<Rightarrow> [])) \<rparr>"

section \<open>JavaScript values and string functions\<close>

text \<open>
  \<^verbatim>\<open>String.prototype.trim\<close> removes leading and trailing white space and line terminators:
  the code units U+0009 to U+000D, U+0020, U+00A0, U+1680, U+2000 to U+200A, U+2028,
  U+2029, U+202F, U+205F, U+3000 and U+FEFF.
\<close>

definition is_space :: "16 word \<Rightarrow> bool" where
  "is_space c =
     (c \<in> {0x0009, 0x000A, 0x000B, 0x000C, 0x000D, 0x0020, 0x00A0, 0x1680,
            0x2028, 0x2029, 0x202F, 0x205F, 0x3000, 0xFEFF}
      \<or> (0x2000 \<le> c \<and> c \<le> 0x200A))"

definition trim :: "jsstring \<Rightarrow> jsstring" where
  "trim s = rev (dropWhile is_space (rev (dropWhile is_space s)))"

text \<open>
  \<^verbatim>\<open>encodeURIComponent\<close>: letters, digits and \<^verbatim>\<open>- _ . ! ~ * ' ( )\<close> are kept. Any other
  code unit starts a code point: the unit itself, or a high surrogate together with the
  low surrogate that follows it. The code point is written as the percent-escaped bytes
  of its UTF-8 encoding, in upper-case hexadecimal. A surrogate that is not part of such
  a pair makes the function throw a URIError.
\<close>

definition unreserved :: "16 word \<Rightarrow> bool" where
  "unreserved c =
     (c \<in> set (js ''ABCDEFGHIJKLMNOPQRSTUVWXYZabcdefghijklmnopqrstuvwxyz0123456789-_.!~*()'')
      \<or> c = 0x27)"

definition hex_digit :: "nat \<Rightarrow> 16 word" where
  "hex_digit n = js ''0123456789ABCDEF'' ! (n mod 16)"

definition percent :: "nat \<Rightarrow> jsstring" where
  "percent b = [0x25, hex_digit (b div 16), hex_digit b]"

definition utf8 :: "nat \<Rightarrow> nat list" where
  "utf8 cp =
     (if cp < 0x80 then [cp]
      else if cp < 0x800 then [0xC0 + cp div 64, 0x80 + cp mod 64]
      else if cp < 0x10000 then
        [0xE0 + cp div 4096, 0x80 + (cp div 64) mod 64, 0x80 + cp mod 64]
      else
        [0xF0 + cp div 262144, 0x80 + (cp div 4096) mod 64, 0x80 + (cp div 64) mod 64,
         0x80 + cp mod 64])"

definition escape :: "nat \<Rightarrow> jsstring" where
  "escape cp = concat (map percent (utf8 cp))"

definition high_surrogate :: "16 word \<Rightarrow> bool" where
  "high_surrogate c = (0xD800 \<le> c \<and> c \<le> 0xDBFF)"

definition low_surrogate :: "16 word \<Rightarrow> bool" where
  "low_surrogate c = (0xDC00 \<le> c \<and> c \<le> 0xDFFF)"

definition pair_code_point :: "16 word \<Rightarrow> 16 word \<Rightarrow> nat" where
  "pair_code_point c d = 0x10000 + (unat c - 0xD800) * 0x400 + (unat d - 0xDC00)"

fun encodeURIComponent :: "jsstring \<Rightarrow> error + jsstring" where
  "encodeURIComponent [] = Inr []"
| "encodeURIComponent (c # cs) =
     (if unreserved c then
        (case encodeURIComponent cs of Inl e \<Rightarrow> Inl e | Inr r \<Rightarrow> Inr (c # r))
      else if low_surrogate c then Inl URIError
      else if high_surrogate c then
        (case cs of
           [] \<Rightarrow> Inl URIError
         | d # ds \<Rightarrow>
             if low_surrogate d then
               (case encodeURIComponent ds of
                  Inl e \<Rightarrow> Inl e
                | Inr r \<Rightarrow> Inr (escape (pair_code_point c d) @ r))
             else Inl URIError)
      else
        (case encodeURIComponent cs of
           Inl e \<Rightarrow> Inl e
         | Inr r \<Rightarrow> Inr (escape (unat c) @ r)))"

text \<open>
  A JavaScript number is NaN, an infinity or a real value; a runtime value of unknown type
  is a \<open>jsval\<close>.
\<close>

datatype number = NaN | Num real | PosInfinity | NegInfinity

datatype jsval = JUndefined | JNull | JBoolean bool | JString jsstring | JNumber number

definition typeof_number :: "jsval \<Rightarrow> bool" where
  "typeof_number v = (case v of JNumber _ \<Rightarrow> True | _ \<Rightarrow> False)"

definition Number_isNaN :: "jsval \<Rightarrow> bool" where
  "Number_isNaN v = (v = JNumber NaN)"

text \<open>
  An upvote count is an integer-valued number. The sum of two such numbers is the double
  nearest to the exact sum, a tie going to the even significand; up to \<open>2 ^ 53\<close> in
  magnitude every integer is a double and the sum is exact.
\<close>

definition to_double :: "int \<Rightarrow> int" where
  "to_double x =
     (if \<bar>x\<bar> < 2 ^ 53 then x
      else let q = 2 ^ (nat (bitlen \<bar>x\<bar>) - 53); r = \<bar>x\<bar> mod q; lo = \<bar>x\<bar> - r
           in sgn x * (if q < 2 * r \<or> (q = 2 * r \<and> odd (lo div q)) then lo + q else lo))"

definition number_add :: "int \<Rightarrow> int \<Rightarrow> int" where
  "number_add a b = to_double (a + b)"

text \<open>
  A JavaScript \<^verbatim>\<open>Set\<close> is the list of its elements in insertion order.
\<close>

definition Set_add :: "'a list \<Rightarrow> 'a \<Rightarrow> 'a list" where
  "Set_add xs x = (if x \<in> set xs then xs else xs @ [x])"

definition Set_delete :: "'a list \<Rightarrow> 'a \<Rightarrow> 'a list" where
  "Set_delete xs x = removeAll x xs"

definition Set_of :: "'a list \<Rightarrow> 'a list" where
  "Set_of xs = foldl Set_add [] xs"

section \<open>Document store\<close>

text \<open>
  Modelled from the spec: the document store of section 6 (the Firestore client library is
  not part of the source). A world holds the documents of the collections \<^verbatim>\<open>issues\<close> and
  \<^verbatim>\<open>users\<close> (of a user document only the counter \<^verbatim>\<open>issuesReported\<close>), the requests the
  store has received so far, and the console output. A point read returns the document if
  it exists; an update of a document that does not exist is rejected; every request is
  recorded whether it succeeds or not.
\<close>

datatype request = GetDoc string string | AddDoc string string | UpdateDoc string string

datatype console_entry = Warn_comentario_nao_encontrado string string

record 't world =
  issue_docs :: "(string \<times> 't IssueData) list"
  user_docs :: "(string \<times> nat) list"
  requests :: "request list"
  console :: "console_entry list"

definition getDoc_issue :: "'t world \<Rightarrow> string \<Rightarrow> 't IssueData option \<times> 't world" where
  "getDoc_issue w i =
     (map_of (issue_docs w) i, w\<lparr>requests := requests w @ [GetDoc ''issues'' i]\<rparr>)"

definition addDoc_issue :: "'t world \<Rightarrow> string \<Rightarrow> 't IssueData \<Rightarrow> 't world" where
  "addDoc_issue w i d =
     w\<lparr>issue_docs := AList.update i d (issue_docs w),
       requests := requests w @ [AddDoc ''issues'' i]\<rparr>"

definition updateDoc_issue ::
  "'t world \<Rightarrow> string \<Rightarrow> ('t IssueData \<Rightarrow> 't IssueData) \<Rightarrow> (error + unit) \<times> 't world" where
  "updateDoc_issue w i f =
     (let w' = w\<lparr>requests := requests w @ [UpdateDoc ''issues'' i]\<rparr>
      in case map_of (issue_docs w) i of
           None \<Rightarrow> (Inl Store_rejected, w')
         | Some d \<Rightarrow> (Inr (), w'\<lparr>issue_docs := AList.update i (f d) (issue_docs w)\<rparr>))"

definition updateDoc_user ::
  "'t world \<Rightarrow> string \<Rightarrow> (nat \<Rightarrow> nat) \<Rightarrow> (error + unit) \<times> 't world" where
  "updateDoc_user w u f =
     (let w' = w\<lparr>requests := requests w @ [UpdateDoc ''users'' u]\<rparr>
      in case map_of (user_docs w) u of
           None \<Rightarrow> (Inl Store_rejected, w')
         | Some n \<Rightarrow> (Inr (), w'\<lparr>user_docs := AList.update u (f n) (user_docs w)\<rparr>))"

text \<open>\<^verbatim>\<open>arrayRemove(v)\<close> removes every element equal to \<open>v\<close> from the array field.\<close>

definition arrayRemove :: "'a \<Rightarrow> 'a list option \<Rightarrow> 'a list option" where
  "arrayRemove v field = Some (removeAll v (case field of Some xs \<Rightarrow> xs | None \<Rightarrow> []))"

text \<open>
  The library's constructor \<^verbatim>\<open>new GeoPoint(latitude, longitude)\<close> checks its arguments and
  throws an invalid-argument error unless the latitude is a finite number from -90 to 90
  and the longitude a finite number from -180 to 180; the latitude is checked first.
\<close>

definition GeoPoint_new :: "jsval \<Rightarrow> jsval \<Rightarrow> error + GeoPoint" where
  "GeoPoint_new a b =
     (case a of
        JNumber (Num la) \<Rightarrow>
          if - 90 \<le> la \<and> la \<le> 90 then
            (case b of
               JNumber (Num lo) \<Rightarrow>
                 if - 180 \<le> lo \<and> lo \<le> 180
                 then Inr \<lparr> latitude = la, longitude = lo \<rparr>
                 else Inl Invalid_argument
             | _ \<Rightarrow> Inl Invalid_argument)
          else Inl Invalid_argument
      | _ \<Rightarrow> Inl Invalid_argument)"

text \<open>
  The query \<^verbatim>\<open>query(collection(db, 'issues'), orderBy('reportedAt', 'desc'))\<close>: the documents
  of the collection that have the field \<^verbatim>\<open>reportedAt\<close>, in descending order of it, and in
  descending order of their identifiers where the times are equal.
\<close>

definition query_issues :: "('t::linorder) world \<Rightarrow> (string \<times> 't IssueData) list" where
  "query_issues w =
     rev (sort_key (\<lambda>(i, d). (IssueData.reportedAt d, i))
            (filter (\<lambda>(i, d). IssueData.reportedAt d \<noteq> None) (issue_docs w)))"

section \<open>Issue service\<close>

record NewLocation =
  lat :: jsval
  lng :: jsval

text \<open>
  The input of \<^verbatim>\<open>addIssueClient\<close> as it arrives at run time: a string field guarded by
  \<^verbatim>\<open>?.\<close> or by \<^verbatim>\<open>!\<close> may be undefined (\<open>None\<close>), and the coordinates are values of any type.
\<close>

record NewIssue =
  title :: "jsstring option"
  description :: "jsstring option"
  category :: "jsstring option"
  location :: "NewLocation option"
  address :: "jsstring option"
  reporter :: jsstring
  reporterId :: "string option"

text \<open>\<^verbatim>\<open>!s?.trim()\<close>: true when \<open>s\<close> is undefined or its trimmed text is empty.\<close>

definition not_trimmed :: "jsstring option \<Rightarrow> bool" where
  "not_trimmed s = (case s of None \<Rightarrow> True | Some t \<Rightarrow> trim t = [])"

definition invalid_location :: "NewLocation option \<Rightarrow> bool" where
  "invalid_location l =
     (case l of
        None \<Rightarrow> True
      | Some p \<Rightarrow> \<not> typeof_number (NewLocation.lat p) \<or> \<not> typeof_number (NewLocation.lng p)
                  \<or> Number_isNaN (NewLocation.lat p) \<or> Number_isNaN (NewLocation.lng p))"

text \<open>
  The payload of lines 109 to 122, its fields evaluated in the order of the source.
  \<open>serverTime\<close> is the value the store writes for \<^verbatim>\<open>serverTimestamp()\<close>. Building the payload
  can throw: \<^verbatim>\<open>.trim()\<close> on an undefined field and \<^verbatim>\<open>issue.location.lat\<close> on an undefined
  location throw a TypeError (not reached after the checks of \<open>addIssueClient\<close>),
  \<^verbatim>\<open>encodeURIComponent(issue.title)\<close> throws a URIError, and \<^verbatim>\<open>new GeoPoint(...)\<close> throws
  an invalid-argument error. The reporter id is read after the check that it is present.
\<close>

definition payload :: "'t \<Rightarrow> NewIssue \<Rightarrow> error + 't IssueData" where
  "payload serverTime issue =
     (case NewIssue.title issue of None \<Rightarrow> Inl TypeError | Some t \<Rightarrow>
      case NewIssue.description issue of None \<Rightarrow> Inl TypeError | Some d \<Rightarrow>
      case NewIssue.address issue of None \<Rightarrow> Inl TypeError | Some a \<Rightarrow>
      case encodeURIComponent t of Inl e \<Rightarrow> Inl e | Inr escaped \<Rightarrow>
      case NewIssue.location issue of None \<Rightarrow> Inl TypeError | Some p \<Rightarrow>
      case GeoPoint_new (NewLocation.lat p) (NewLocation.lng p) of Inl e \<Rightarrow> Inl e | Inr g \<Rightarrow>
        Inr \<lparr> IssueData.title = trim t,
              IssueData.description = trim d,
              IssueData.category =
                (case NewIssue.category issue of
                   Some c \<Rightarrow> (if c \<noteq> [] then c else js ''Outros'') | None \<Rightarrow> js ''Outros''),
              IssueData.status = Recebido,
              IssueData.location = g,
              IssueData.address = trim a,
              IssueData.imageUrl = js ''https://placehold.co/600x400.png?text='' @ escaped,
              IssueData.reportedAt = Some serverTime,
              IssueData.reporter = NewIssue.reporter issue,
              IssueData.reporterId =
                (case NewIssue.reporterId issue of Some r \<Rightarrow> r | None \<Rightarrow> []),
              IssueData.upvotes = Some 0,
              IssueData.comments = Some [] \<rparr>)"

text \<open>
  \<^verbatim>\<open>addIssueClient\<close>. \<open>newId\<close> is the identifier the store assigns in \<^verbatim>\<open>addDoc\<close>. The five
  checks come first, in the order of the source, and each throws before any request is
  sent; then the payload is built, and an error thrown there also precedes every request;
  then the issue document is added; then the reporter's counter is incremented, and a
  rejection of that update is thrown after the issue document has been written.
\<close>

definition addIssueClient ::
  "string \<Rightarrow> 't \<Rightarrow> 't world \<Rightarrow> NewIssue \<Rightarrow> (error + string) \<times> 't world" where
  "addIssueClient newId serverTime w issue =
     (if not_trimmed (NewIssue.title issue) then (Inl Titulo_obrigatorio, w)
      else if not_trimmed (NewIssue.description issue) then (Inl Descricao_obrigatoria, w)
      else if not_trimmed (NewIssue.address issue) then (Inl Endereco_obrigatorio, w)
      else if (case NewIssue.reporterId issue of None \<Rightarrow> True | Some r \<Rightarrow> r = [])
        then (Inl ID_do_relator_obrigatorio, w)
      else if invalid_location (NewIssue.location issue) then (Inl Localizacao_invalida, w)
      else
        (case payload serverTime issue of
           Inl e \<Rightarrow> (Inl e, w)
         | Inr p \<Rightarrow>
             (let w1 = addDoc_issue w newId p;
                  (r, w2) = updateDoc_user w1
                              (case NewIssue.reporterId issue of Some u \<Rightarrow> u | None \<Rightarrow> []) Suc
              in case r of Inl e \<Rightarrow> (Inl e, w2) | Inr _ \<Rightarrow> (Inr newId, w2))))"

text \<open>
  \<^verbatim>\<open>listenToIssues\<close>: on every notification the handler normalizes all documents of the
  query snapshot, in the snapshot's order, and passes the list to the callback.
  \<open>listenToIssues toDate now w\<close> is the list the callback receives when the store is \<open>w\<close>.
\<close>

definition snapshot_issues ::
  "('t \<Rightarrow> Date) \<Rightarrow> Date \<Rightarrow> (string \<times> 't IssueData) list \<Rightarrow> Issue list" where
  "snapshot_issues toDate now docs = map (\<lambda>(i, d). fromFirestore toDate now d i) docs"

definition listenToIssues :: "('t::linorder \<Rightarrow> Date) \<Rightarrow> Date \<Rightarrow> 't world \<Rightarrow> Issue list" where
  "listenToIssues toDate now w = snapshot_issues toDate now (query_issues w)"

definition updateIssueUpvotes ::
  "'t world \<Rightarrow> string \<Rightarrow> int \<Rightarrow> (error + unit) \<times> 't world" where
  "updateIssueUpvotes w issueId newUpvotes =
     updateDoc_issue w issueId (\<lambda>d. d\<lparr>IssueData.upvotes := Some newUpvotes\<rparr>)"

text \<open>
  \<^verbatim>\<open>deleteCommentFromIssue\<close>. \<^verbatim>\<open>issueData.comments.find(...)\<close> reads the comments field
  unguarded: on a document without that field the call throws a TypeError.
\<close>

definition deleteCommentFromIssue ::
  "'t world \<Rightarrow> string \<Rightarrow> string \<Rightarrow> (error + unit) \<times> 't world" where
  "deleteCommentFromIssue w issueId commentId =
     (let (issueSnap, w1) = getDoc_issue w issueId
      in case issueSnap of
           None \<Rightarrow> (Inl Ocorrencia_nao_encontrada, w1)
         | Some issueData \<Rightarrow>
             (case IssueData.comments issueData of
                None \<Rightarrow> (Inl TypeError, w1)
              | Some cs \<Rightarrow>
                  (case find (\<lambda>c. comment_id c = commentId) cs of
                     Some commentToDelete \<Rightarrow>
                       updateDoc_issue w1 issueId
                         (\<lambda>d. d\<lparr>IssueData.comments :=
                                  arrayRemove commentToDelete (IssueData.comments d)\<rparr>)
                   | None \<Rightarrow>
                       (Inr (), w1\<lparr>console := console w1 @
                          [Warn_comentario_nao_encontrado commentId issueId]\<rparr>))))"

section \<open>Map page\<close>

text \<open>
  The state of the component \<^verbatim>\<open>MapPage\<close> that the category filter and the upvote handler
  use: the React state variables \<^verbatim>\<open>issues\<close>, \<^verbatim>\<open>upvotedIssues\<close> and \<^verbatim>\<open>selectedCategories\<close>,
  the signed-in user (the \<^verbatim>\<open>uid\<close> of \<^verbatim>\<open>appUser\<close>, \<open>None\<close> when signed out), the browser's
  local storage (a stored value is the array that \<^verbatim>\<open>JSON.stringify\<close> writes), the toasts
  shown, the routes pushed, and the world of the issue service.

  Every render of the component declares \<^verbatim>\<open>upvotedIssues\<close> and \<^verbatim>\<open>appUser\<close> as constants and
  builds a new function \<^verbatim>\<open>handleUpvote\<close> that reads these constants, not the state of the
  moment of the call. A \<open>scope\<close> holds the two constants of one render, and \<open>render s\<close> is
  the scope of the render that shows the state \<open>s\<close>.
\<close>

datatype toast = Acesso_negado | Erro_ao_apoiar

record scope =
  upvotedIssues :: "string list"
  appUser :: "string option"

record 't page =
  issues :: "Issue list"
  upvotedIssues :: "string list"
  selectedCategories :: "jsstring list"
  appUser :: "string option"
  localStorage :: "(string \<times> string list) list"
  toasts :: "toast list"
  pushed :: "string list"
  world :: "'t world"

definition initial_page :: "string option \<Rightarrow> 't world \<Rightarrow> 't page" where
  "initial_page u w =
     \<lparr> issues = [], page.upvotedIssues = [], selectedCategories = [], page.appUser = u,
       localStorage = [], toasts = [], pushed = [], world = w \<rparr>"

definition render :: "'t page \<Rightarrow> scope" where
  "render s = \<lparr> scope.upvotedIssues = page.upvotedIssues s, scope.appUser = page.appUser s \<rparr>"

text \<open>\<^verbatim>\<open>[...new Set(issues.map(issue => issue.category))]\<close>\<close>

definition allCategories :: "Issue list \<Rightarrow> jsstring list" where
  "allCategories list = Set_of (map Issue.category list)"

text \<open>
  A notification of the subscription calls \<^verbatim>\<open>setIssues\<close> with a new array (the handler of
  \<^verbatim>\<open>listenToIssues\<close> builds it with \<^verbatim>\<open>map\<close>). The component renders again; the memo
  \<^verbatim>\<open>allCategories\<close> depends on \<^verbatim>\<open>[issues]\<close> and is computed again, giving a new array; the
  effect depends on \<^verbatim>\<open>[allCategories]\<close> and therefore runs again:
  \<^verbatim>\<open>if (allCategories.length > 0) setSelectedCategories(allCategories)\<close>.
\<close>

definition onIssuesSnapshot :: "Issue list \<Rightarrow> 't page \<Rightarrow> 't page" where
  "onIssuesSnapshot new s =
     (let s1 = s\<lparr>issues := new\<rparr>
      in if length (allCategories new) > 0
         then s1\<lparr>selectedCategories := allCategories new\<rparr>
         else s1)"

definition filteredIssues :: "'t page \<Rightarrow> Issue list" where
  "filteredIssues s =
     filter (\<lambda>issue. length (selectedCategories s) = 0
                      \<or> Issue.category issue \<in> set (selectedCategories s))
       (issues s)"

definition handleCategoryChange :: "jsstring \<Rightarrow> 't page \<Rightarrow> 't page" where
  "handleCategoryChange c s =
     s\<lparr>selectedCategories :=
         (if c \<in> set (selectedCategories s)
          then filter (\<lambda>x. x \<noteq> c) (selectedCategories s)
          else selectedCategories s @ [c])\<rparr>"

definition upvotes_key :: "string \<Rightarrow> string" where
  "upvotes_key uid = ''upvotedIssues'' @ ''_'' @ uid"

text \<open>
  \<^verbatim>\<open>handleUpvote\<close> in two parts, split at its \<^verbatim>\<open>await\<close>. The first part runs when the
  handler is called: the two guards read the constants of the handler's scope \<open>h\<close>, the
  new set is built from the captured set and written to the state, and the call of
  \<^verbatim>\<open>updateIssueUpvotes\<close> with \<^verbatim>\<open>currentUpvotes + 1\<close> is started; its result is the call
  that is awaited, if any.
\<close>

record upvote_call =
  call_uid :: string
  call_issueId :: string
  call_newUpvotes :: int

definition handleUpvote_begin ::
  "scope \<Rightarrow> 't page \<Rightarrow> string \<Rightarrow> int \<Rightarrow> 't page \<times> upvote_call option" where
  "handleUpvote_begin h s issueId currentUpvotes =
     (case scope.appUser h of
        None \<Rightarrow>
          (s\<lparr>toasts := toasts s @ [Acesso_negado], pushed := pushed s @ [''/login'']\<rparr>, None)
      | Some uid \<Rightarrow>
          if issueId \<in> set (scope.upvotedIssues h) then (s, None)
          else
            (s\<lparr>page.upvotedIssues := Set_add (scope.upvotedIssues h) issueId\<rparr>,
             Some \<lparr> call_uid = uid, call_issueId = issueId,
                    call_newUpvotes = number_add currentUpvotes 1 \<rparr>))"

text \<open>
  The second part runs when the awaited call settles, on the state \<open>s\<close> of that moment:
  the store answers the request; on success the new set, built from the captured set, is
  written to local storage; on failure the captured set without the issue is written to
  the state and the failure toast is shown.
\<close>

definition handleUpvote_settle :: "scope \<Rightarrow> upvote_call \<Rightarrow> 't page \<Rightarrow> 't page" where
  "handleUpvote_settle h c s =
     (let newUpvotedSet = Set_add (scope.upvotedIssues h) (call_issueId c);
          (r, w') = updateIssueUpvotes (world s) (call_issueId c) (call_newUpvotes c)
      in case r of
           Inr _ \<Rightarrow>
             s\<lparr>world := w',
               localStorage :=
                 AList.update (upvotes_key (call_uid c)) newUpvotedSet (localStorage s)\<rparr>
         | Inl _ \<Rightarrow>
             s\<lparr>page.upvotedIssues := Set_delete (scope.upvotedIssues h) (call_issueId c),
               world := w', toasts := toasts s @ [Erro_ao_apoiar]\<rparr>)"

text \<open>
  A call of the handler of scope \<open>h\<close> on the state \<open>s\<close> that runs until its promise has
  settled, with no other event handled during the \<^verbatim>\<open>await\<close>.
\<close>

definition handleUpvote :: "scope \<Rightarrow> 't page \<Rightarrow> string \<Rightarrow> int \<Rightarrow> 't page" where
  "handleUpvote h s issueId currentUpvotes =
     (case handleUpvote_begin h s issueId currentUpvotes of
        (s1, None) \<Rightarrow> s1
      | (s1, Some c) \<Rightarrow> handleUpvote_settle h c s1)"

section \<open>Input classes named by the claims\<close>

text \<open>
  The invalid inputs of the validation claim, in the claim's own words rather than the
  code's: a text field is blank when it is missing, empty or made of white space only; a
  coordinate is bad when it is not a number or is NaN; an input is invalid when its title,
  description or address is blank, its reporter id is missing or empty, or its location is
  missing or has a bad coordinate.
\<close>

definition spec_blank :: "jsstring option \<Rightarrow> bool" where
  "spec_blank s = (case s of None \<Rightarrow> True | Some t \<Rightarrow> (\<forall>c\<in>set t. is_space c))"

definition spec_bad_coordinate :: "jsval \<Rightarrow> bool" where
  "spec_bad_coordinate v = (case v of JNumber n \<Rightarrow> n = NaN | _ \<Rightarrow> True)"

definition spec_invalid_input :: "NewIssue \<Rightarrow> bool" where
  "spec_invalid_input issue =
     (spec_blank (NewIssue.title issue) \<or> spec_blank (NewIssue.description issue)
      \<or> spec_blank (NewIssue.address issue)
      \<or> NewIssue.reporterId issue = None \<or> NewIssue.reporterId issue = Some []
      \<or> (case NewIssue.location issue of
            None \<Rightarrow> True
          | Some p \<Rightarrow> spec_bad_coordinate (NewLocation.lat p)
                      \<or> spec_bad_coordinate (NewLocation.lng p)))"

definition validation_errors :: "error set" where
  "validation_errors = {Titulo_obrigatorio, Descricao_obrigatoria, Endereco_obrigatorio,
     ID_do_relator_obrigatorio, Localizacao_invalida}"

section \<open>Example data\<close>

definition example_comment :: "string \<Rightarrow> int \<Rightarrow> int CommentData" where
  "example_comment c t =
     \<lparr> comment_id = c, content = js ''ok'', author = js ''Ana'', authorId = ''u1'',
       authorPhotoURL = None, authorRole = User, createdAt = t \<rparr>"

definition example_data :: "int CommentData list option \<Rightarrow> int IssueData" where
  "example_data cs =
     \<lparr> IssueData.title = js ''Buraco'', IssueData.description = js ''Buraco grande'',
       IssueData.category = js ''Vias'', IssueData.status = Recebido,
       IssueData.location = \<lparr> latitude = -16, longitude = -47.98 \<rparr>,
       IssueData.address = js ''Quadra 1'', IssueData.imageUrl = js ''img'',
       IssueData.reportedAt = None, IssueData.reporter = js ''Ana'',
       IssueData.reporterId = ''u1'', IssueData.upvotes = None,
       IssueData.comments = cs \<rparr>"

definition example_new_issue :: "jsstring option \<Rightarrow> jsval \<Rightarrow> NewIssue" where
  "example_new_issue t la =
     \<lparr> NewIssue.title = t, NewIssue.description = Some (js ''Large pothole''),
       NewIssue.category = Some (js ''Roads''),
       NewIssue.location = Some \<lparr> NewLocation.lat = la, NewLocation.lng = JNumber (Num (-47.98)) \<rparr>,
       NewIssue.address = Some (js ''Quadra 1''), NewIssue.reporter = js ''Ana'',
       NewIssue.reporterId = Some ''u1'' \<rparr>"

definition example_world :: "int world" where
  "example_world =
     \<lparr> issue_docs = [(''i1'', example_data None),
                     (''i2'', example_data (Some [example_comment ''c1'' 10]))],
       user_docs = [(''u1'', 0)], requests = [], console = [] \<rparr>"

definition example_issue :: "string \<Rightarrow> string \<Rightarrow> Issue" where
  "example_issue i c =
     fromFirestore (\<lambda>t. t) 0 ((example_data None)\<lparr>IssueData.category := js c\<rparr>) i"

definition example_page :: "int page" where
  "example_page = initial_page (Some ''u1'') example_world"

text \<open>
  A title with a space, a letter outside ASCII (U+00E7) and a character outside the basic
  plane (U+1F6A7, the surrogate pair D83D DEA7): "Via " followed by these two.
\<close>

definition example_title :: jsstring where
  "example_title = js ''Via '' @ [0x00E7, 0xD83D, 0xDEA7]"

definition example_record :: "int IssueData" where
  "example_record =
     \<lparr> IssueData.title = example_title, IssueData.description = js ''Large pothole'',
       IssueData.category = js ''Roads'', IssueData.status = Recebido,
       IssueData.location = \<lparr> latitude = -16, longitude = -47.98 \<rparr>,
       IssueData.address = js ''Quadra 1'',
       IssueData.imageUrl = js ''https://placehold.co/600x400.png?text=Via%20%C3%A7%F0%9F%9A%A7'',
       IssueData.reportedAt = Some 5, IssueData.reporter = js ''Ana'',
       IssueData.reporterId = ''u1'', IssueData.upvotes = Some 0,
       IssueData.comments = Some [] \<rparr>"

definition example_stored :: "int world" where
  "example_stored =
     \<lparr> issue_docs = [(''i1'', example_data None),
                     (''i2'', example_data (Some [example_comment ''c1'' 10])),
                     (''i3'', example_record)],
       user_docs = [(''u1'', 1)],
       requests = [AddDoc ''issues'' ''i3'', UpdateDoc ''users'' ''u1''], console = [] \<rparr>"

definition example_plain_issue :: NewIssue where
  "example_plain_issue = example_new_issue (Some (js ''Pothole'')) (JNumber (Num (-16)))"

section \<open>Properties of the normalizer\<close>

lemma sortComments_keys_sorted: "sorted (map (\<lambda>c. - createdAt c) (sortComments cs))"
  by (simp add: sortComments_def)

lemma sortComments_mset: "mset (sortComments cs) = mset cs"
  by (simp add: sortComments_def)

lemma sortComments_distinct_keys:
  assumes "distinct (map createdAt cs)"
  shows "distinct (map (\<lambda>c. - createdAt c) (sortComments cs))"
proof -
  have "mset (map createdAt (sortComments cs)) = mset (map createdAt cs)"
    by (simp add: sortComments_mset)
  then have "distinct (map createdAt (sortComments cs))"
    using assms by (metis mset_eq_imp_distinct_iff)
  moreover have "map (\<lambda>c. - createdAt c) (sortComments cs)
                  = map uminus (map createdAt (sortComments cs))"
    by simp
  ultimately show ?thesis
    by (simp only: distinct_map) (auto simp: inj_on_def)
qed

lemma sortComments_strict:
  assumes "distinct (map createdAt cs)"
  shows "sorted_wrt (\<lambda>a b. createdAt b < createdAt a) (sortComments cs)"
proof -
  have "sorted_wrt (<) (map (\<lambda>c. - createdAt c) (sortComments cs))"
    using sortComments_keys_sorted [of cs] sortComments_distinct_keys [OF assms]
    by (simp add: strict_sorted_iff)
  then show ?thesis
    by (simp add: sorted_wrt_map)
qed

text \<open>
  Claim C3. A raw record without a comments field normalizes to an Issue with an empty
  comment list; a record without an upvotes field normalizes to 0 upvotes; a record
  without a report timestamp normalizes to the current time. No error arises:
  \<open>fromFirestore\<close> has no failing branch for these fields and returns an Issue for every
  record.
\<close>

theorem fromFirestore_defaults:
  "(IssueData.comments d = None \<longrightarrow> Issue.comments (fromFirestore toDate now d i) = []) \<and>
   (IssueData.upvotes d = None \<longrightarrow> Issue.upvotes (fromFirestore toDate now d i) = 0) \<and>
   (IssueData.reportedAt d = None \<longrightarrow> Issue.reportedAt (fromFirestore toDate now d i) = now)"
  by (simp add: fromFirestore_def sortComments_def)

theorem fromFirestore_defaults_witness:
  "IssueData.comments (example_data None) = None \<and>
   IssueData.upvotes (example_data None) = None \<and>
   IssueData.reportedAt (example_data None) = None \<and>
   Issue.comments (fromFirestore (\<lambda>t. t) 1700000000000 (example_data None) ''i1'') = [] \<and>
   Issue.upvotes (fromFirestore (\<lambda>t. t) 1700000000000 (example_data None) ''i1'') = 0 \<and>
   Issue.reportedAt (fromFirestore (\<lambda>t. t) 1700000000000 (example_data None) ''i1'')
     = 1700000000000"
  using fromFirestore_defaults [of "example_data None" "\<lambda>t. t" 1700000000000 "''i1''"]
  by (simp add: example_data_def)

text \<open>
  Claim C4. When the creation times of a record's embedded comments, as \<open>toDate\<close> converts
  them and the comparator reads them, are pairwise distinct, the comment list of the
  normalized Issue is strictly descending by creation time (newest first), and it holds
  exactly the converted comments of the record.
\<close>

theorem fromFirestore_comments_strictly_descending:
  assumes "IssueData.comments d = Some cs"
    and "distinct (map (\<lambda>c. toDate (createdAt c)) cs)"
  shows "sorted_wrt (\<lambda>a b. createdAt b < createdAt a)
           (Issue.comments (fromFirestore toDate now d i)) \<and>
         mset (Issue.comments (fromFirestore toDate now d i))
           = mset (map (convertComment toDate) cs)"
proof -
  have "map createdAt (map (convertComment toDate) cs) = map (\<lambda>c. toDate (createdAt c)) cs"
    by (simp add: convertComment_def)
  then have "distinct (map createdAt (map (convertComment toDate) cs))"
    using assms(2) by (simp only:)
  then have "sorted_wrt (\<lambda>a b. createdAt b < createdAt a)
               (sortComments (map (convertComment toDate) cs))"
    by (rule sortComments_strict)
  then show ?thesis
    using assms(1) by (simp add: fromFirestore_def sortComments_mset)
qed

theorem fromFirestore_comments_strictly_descending_witness:
  "map createdAt (Issue.comments (fromFirestore (\<lambda>t. t) 0
      (example_data (Some [example_comment ''a'' 10, example_comment ''b'' 30,
                           example_comment ''c'' 20])) ''i1'')) = [30, 20, 10] \<and>
   sorted_wrt (\<lambda>a b. createdAt b < createdAt a)
     (Issue.comments (fromFirestore (\<lambda>t. t) 0
        (example_data (Some [example_comment ''a'' 10, example_comment ''b'' 30,
                             example_comment ''c'' 20])) ''i1''))"
  using fromFirestore_comments_strictly_descending
    [of "example_data (Some [example_comment ''a'' 10, example_comment ''b'' 30,
                             example_comment ''c'' 20])"
        "[example_comment ''a'' 10, example_comment ''b'' 30, example_comment ''c'' 20]"
        "\<lambda>t. t" 0 "''i1''"]
  by (simp add: example_data_def example_comment_def fromFirestore_def sortComments_def
      convertComment_def)

section \<open>Properties of the issue service\<close>

lemma trim_empty_iff: "trim s = [] \<longleftrightarrow> (\<forall>c\<in>set s. is_space c)"
proof
  assume "\<forall>c\<in>set s. is_space c"
  then have "dropWhile is_space s = []" by (metis dropWhile_eq_Nil_conv)
  then show "trim s = []" by (simp add: trim_def del: dropWhile_eq_Nil_conv)
next
  assume a: "trim s = []"
  show "\<forall>c\<in>set s. is_space c"
  proof (cases "dropWhile is_space s")
    case Nil
    then show ?thesis by (metis dropWhile_eq_Nil_conv)
  next
    case (Cons x xs)
    then have "\<not> is_space x" by (metis hd_dropWhile list.sel(1) list.distinct(1))
    moreover from a have "\<forall>c\<in>set (rev (dropWhile is_space s)). is_space c"
      unfolding trim_def by (metis dropWhile_eq_Nil_conv rev_is_Nil_conv)
    ultimately show ?thesis using Cons by simp
  qed
qed

lemma not_trimmed_iff: "not_trimmed s \<longleftrightarrow> spec_blank s"
  by (simp add: not_trimmed_def spec_blank_def trim_empty_iff split: option.splits)

lemma invalid_location_iff:
  "invalid_location l \<longleftrightarrow>
     (case l of None \<Rightarrow> True
      | Some p \<Rightarrow> spec_bad_coordinate (NewLocation.lat p) \<or> spec_bad_coordinate (NewLocation.lng p))"
  by (auto simp: invalid_location_def spec_bad_coordinate_def typeof_number_def Number_isNaN_def
      split: option.splits jsval.splits)

text \<open>
  Claim C7. For every new-issue input with a blank title, description or address, a missing
  reporter id, a missing location, or a latitude or longitude that is not a number or is
  NaN, \<open>addIssueClient\<close> fails with one of its five validation errors and the world is
  exactly as before: no request has been sent, no document written and no reporter
  counter incremented. The checks stand before the first \<^verbatim>\<open>await\<close> of the function.
\<close>

theorem addIssueClient_rejects_invalid:
  assumes "spec_invalid_input issue"
  shows "\<exists>e\<in>validation_errors. addIssueClient newId serverTime w issue = (Inl e, w)"
  using assms
  by (auto simp: spec_invalid_input_def addIssueClient_def validation_errors_def
      not_trimmed_iff invalid_location_iff split: option.splits)

theorem addIssueClient_rejects_invalid_witness:
  "spec_invalid_input (example_new_issue (Some (js ''  '')) (JNumber (Num (-16)))) \<and>
   spec_invalid_input (example_new_issue (Some (js ''Pothole'')) (JNumber NaN)) \<and>
   addIssueClient ''i3'' 5 example_world (example_new_issue (Some (js ''  '')) (JNumber (Num (-16))))
     = (Inl Titulo_obrigatorio, example_world) \<and>
   addIssueClient ''i3'' 5 example_world (example_new_issue (Some (js ''Pothole'')) (JNumber NaN))
     = (Inl Localizacao_invalida, example_world)"
  using addIssueClient_rejects_invalid
      [of "example_new_issue (Some (js ''  '')) (JNumber (Num (-16)))" "''i3''" 5 example_world]
    addIssueClient_rejects_invalid
      [of "example_new_issue (Some (js ''Pothole'')) (JNumber NaN)" "''i3''" 5 example_world]
  by (simp add: spec_invalid_input_def spec_blank_def spec_bad_coordinate_def is_space_def
      example_new_issue_def addIssueClient_def not_trimmed_def trim_def invalid_location_def
      typeof_number_def Number_isNaN_def validation_errors_def js_def)

lemma encodeURIComponent_unreserved:
  assumes "\<forall>c\<in>set t. unreserved c"
  shows "encodeURIComponent t = Inr t"
  using assms by (induction t) auto

lemma hex_digit_inj:
  assumes "hex_digit a = hex_digit b"
  shows "a mod 16 = b mod 16"
proof -
  have d: "distinct (js ''0123456789ABCDEF'')" by (simp add: js_def)
  have l: "length (js ''0123456789ABCDEF'') = 16" by (simp add: js_def)
  have "a mod 16 < length (js ''0123456789ABCDEF'')" "b mod 16 < length (js ''0123456789ABCDEF'')"
    by (simp_all add: l)
  then show ?thesis
    using assms d unfolding hex_digit_def by (simp add: nth_eq_iff_index_eq)
qed

lemma percent_append_inj:
  assumes "percent a @ x = percent b @ y" and "a < 256" and "b < 256"
  shows "a = b \<and> x = y"
proof -
  from assms(1) have h1: "hex_digit (a div 16) = hex_digit (b div 16)"
    and h2: "hex_digit a = hex_digit b" and xy: "x = y"
    by (simp_all add: percent_def)
  from hex_digit_inj [OF h1] assms(2,3) have "a div 16 = b div 16" by simp
  moreover from hex_digit_inj [OF h2] have "a mod 16 = b mod 16" .
  ultimately have "a = b" by (metis div_mult_mod_eq)
  then show ?thesis using xy by simp
qed

lemma utf8_bytes:
  assumes "cp < 0x110000"
  shows "\<forall>b\<in>set (utf8 cp). b < 256"
proof -
  have "cp mod 64 < 64" "(cp div 64) mod 64 < 64" "(cp div 4096) mod 64 < 64" by simp_all
  moreover have "cp < 0x800 \<Longrightarrow> cp div 64 < 32" "cp < 0x10000 \<Longrightarrow> cp div 4096 < 16"
    "cp div 262144 < 5" using assms by simp_all
  ultimately show ?thesis by (auto simp: utf8_def)
qed

lemma utf8_length:
  assumes "cp < 0x110000" and "cq < 0x110000" and "hd (utf8 cp) = hd (utf8 cq)"
  shows "length (utf8 cp) = length (utf8 cq)"
proof -
  have "cp < 0x800 \<Longrightarrow> cp div 64 < 32" "cp < 0x10000 \<Longrightarrow> cp div 4096 < 16"
    "cp div 262144 < 5" "cq < 0x800 \<Longrightarrow> cq div 64 < 32" "cq < 0x10000 \<Longrightarrow> cq div 4096 < 16"
    "cq div 262144 < 5" using assms by simp_all
  then show ?thesis
    using assms(3) by (auto simp: utf8_def split: if_splits)
qed

lemma utf8_inj:
  assumes "utf8 cp = utf8 cq"
  shows "cp = cq"
proof -
  have d: "\<And>a b :: nat. a div 64 = b div 64 \<Longrightarrow> a mod 64 = b mod 64 \<Longrightarrow> a = b"
    by (metis div_mult_mod_eq)
  have e: "\<And>a b :: nat. a div 4096 = b div 4096 \<Longrightarrow> (a div 64) mod 64 = (b div 64) mod 64
             \<Longrightarrow> a div 64 = b div 64"
  proof -
    fix a b :: nat
    assume "a div 4096 = b div 4096" and "(a div 64) mod 64 = (b div 64) mod 64"
    moreover have "a div 4096 = (a div 64) div 64" "b div 4096 = (b div 64) div 64"
      by (simp_all add: div_mult2_eq)
    ultimately show "a div 64 = b div 64" by (metis div_mult_mod_eq)
  qed
  have f: "\<And>a b :: nat. a div 262144 = b div 262144 \<Longrightarrow>
             (a div 4096) mod 64 = (b div 4096) mod 64 \<Longrightarrow> a div 4096 = b div 4096"
  proof -
    fix a b :: nat
    assume "a div 262144 = b div 262144" and "(a div 4096) mod 64 = (b div 4096) mod 64"
    moreover have "a div 262144 = (a div 4096) div 64" "b div 262144 = (b div 4096) div 64"
      by (simp_all add: div_mult2_eq)
    ultimately show "a div 4096 = b div 4096" by (metis div_mult_mod_eq)
  qed
  show ?thesis
    using assms by (auto simp: utf8_def split: if_splits intro: d e f dest: d e f)
qed

lemma percents_inj:
  assumes "concat (map percent bs) @ x = concat (map percent cs) @ y"
    and "\<forall>b\<in>set bs. b < 256" and "\<forall>c\<in>set cs. c < 256" and "length bs = length cs"
  shows "bs = cs \<and> x = y"
  using assms
proof (induction bs arbitrary: cs)
  case Nil
  then show ?case by simp
next
  case (Cons b bs)
  then obtain c cs' where cs: "cs = c # cs'" by (cases cs) auto
  with Cons.prems have
    "percent b @ (concat (map percent bs) @ x) = percent c @ (concat (map percent cs') @ y)"
    by simp
  then have "b = c" and "concat (map percent bs) @ x = concat (map percent cs') @ y"
    using percent_append_inj [of b _ c] Cons.prems(2,3) cs by auto
  then show ?case using Cons cs by auto
qed

lemma utf8_Cons: "\<exists>b bs. utf8 cp = b # bs"
  by (simp add: utf8_def)

lemma escape_append_inj:
  assumes "escape cp @ x = escape cq @ y" and "cp < 0x110000" and "cq < 0x110000"
  shows "cp = cq \<and> x = y"
proof -
  obtain b bs where b: "utf8 cp = b # bs" using utf8_Cons by blast
  obtain c cs where c: "utf8 cq = c # cs" using utf8_Cons by blast
  have bb: "b < 256" using utf8_bytes [OF assms(2)] b by simp
  have cc: "c < 256" using utf8_bytes [OF assms(3)] c by simp
  from assms(1) have
    "percent b @ (concat (map percent bs) @ x) = percent c @ (concat (map percent cs) @ y)"
    by (simp add: escape_def b c)
  then have "b = c" using percent_append_inj [OF _ bb cc] by blast
  then have "length (utf8 cp) = length (utf8 cq)"
    using utf8_length [OF assms(2,3)] b c by simp
  then have "utf8 cp = utf8 cq \<and> x = y"
    using percents_inj [of "utf8 cp" x "utf8 cq" y] assms(1)
      utf8_bytes [OF assms(2)] utf8_bytes [OF assms(3)]
    by (simp add: escape_def)
  then show ?thesis using utf8_inj by blast
qed

lemma escape_hd: "\<exists>r. escape cp = 0x25 # r"
  using utf8_Cons [of cp] by (auto simp: escape_def percent_def)


lemma surrogate_bounds:
  "high_surrogate c \<Longrightarrow> 0xD800 \<le> unat c \<and> unat c \<le> 0xDBFF"
  "low_surrogate d \<Longrightarrow> 0xDC00 \<le> unat d \<and> unat d \<le> 0xDFFF"
  by (simp_all add: high_surrogate_def low_surrogate_def word_le_nat_alt)

lemma unit_eqI: "unat (c :: 16 word) = unat c' \<Longrightarrow> c = c'"
  by (simp add: word_unat_eq_iff)

lemma unit_bound: "unat (c :: 16 word) < 0x10000"
  using unsigned_less [of c, where 'a = nat] by simp

lemma pair_code_point_bounds:
  assumes "high_surrogate c" and "low_surrogate d"
  shows "0x10000 \<le> pair_code_point c d \<and> pair_code_point c d < 0x110000"
  using surrogate_bounds(1) [OF assms(1)] surrogate_bounds(2) [OF assms(2)]
  unfolding pair_code_point_def by arith

lemma pair_code_point_inj:
  assumes "high_surrogate c" and "low_surrogate d" and "high_surrogate c'" and "low_surrogate d'"
    and "pair_code_point c d = pair_code_point c' d'"
  shows "c = c' \<and> d = d'"
proof -
  let ?a = "unat c - 0xD800" and ?b = "unat d - 0xDC00"
  let ?a' = "unat c' - 0xD800" and ?b' = "unat d' - 0xDC00"
  have b: "?b < 0x400" "?b' < 0x400"
    using surrogate_bounds(2) [OF assms(2)] surrogate_bounds(2) [OF assms(4)] by arith+
  have eq: "?a * 0x400 + ?b = ?a' * 0x400 + ?b'"
    using assms(5) by (simp add: pair_code_point_def)
  have "(?a * 0x400 + ?b) div 0x400 = ?a" "(?a' * 0x400 + ?b') div 0x400 = ?a'"
    "(?a * 0x400 + ?b) mod 0x400 = ?b" "(?a' * 0x400 + ?b') mod 0x400 = ?b'"
    using b by simp_all
  then have "?a = ?a'" and "?b = ?b'" using eq by metis+
  then have "unat c = unat c'" and "unat d = unat d'"
    using surrogate_bounds(1) [OF assms(1)] surrogate_bounds(1) [OF assms(3)]
      surrogate_bounds(2) [OF assms(2)] surrogate_bounds(2) [OF assms(4)] by arith+
  then show ?thesis by (simp add: unit_eqI)
qed

lemma percent_sign_reserved: "\<not> unreserved 0x25"
  by (simp add: unreserved_def js_def)

lemma encodeURIComponent_Cons:
  assumes "encodeURIComponent (c # cs) = Inr r"
  shows "(unreserved c \<and> (\<exists>r1. encodeURIComponent cs = Inr r1 \<and> r = c # r1)) \<or>
         (\<not> unreserved c \<and> \<not> high_surrogate c \<and>
            (\<exists>r1. encodeURIComponent cs = Inr r1 \<and> r = escape (unat c) @ r1)) \<or>
         (\<not> unreserved c \<and> high_surrogate c \<and>
            (\<exists>d ds r1. cs = d # ds \<and> low_surrogate d \<and> encodeURIComponent ds = Inr r1 \<and>
               r = escape (pair_code_point c d) @ r1))"
  using assms by (auto split: if_splits sum.splits list.splits)

lemma escape_not_Nil: "escape cp @ r \<noteq> []"
  using escape_hd [of cp] by auto

lemma encodeURIComponent_Nil:
  assumes "encodeURIComponent s = Inr []"
  shows "s = []"
proof (cases s)
  case Nil
  then show ?thesis by simp
next
  case (Cons c cs)
  then have "encodeURIComponent (c # cs) = Inr []" using assms by simp
  from encodeURIComponent_Cons [OF this] show ?thesis
    using escape_not_Nil by (metis list.distinct(1))
qed

lemma encodeURIComponent_inj:
  assumes "encodeURIComponent s = Inr r" and "encodeURIComponent s' = Inr r"
  shows "s = s'"
  using assms
proof (induction "length s" arbitrary: s s' r rule: less_induct)
  case less
  show ?case
  proof (cases s)
    case Nil
    then have "r = []" using less.prems(1) by simp
    then show ?thesis using Nil less.prems(2) encodeURIComponent_Nil [of s'] by simp
  next
    case s: (Cons c cs)
    show ?thesis
    proof (cases s')
      case Nil
      then have "r = []" using less.prems(2) by simp
      then show ?thesis using Nil less.prems(1) encodeURIComponent_Nil [of s] by simp
    next
      case s': (Cons c' cs')
      note A = encodeURIComponent_Cons [OF less.prems(1) [unfolded s]]
      note B = encodeURIComponent_Cons [OF less.prems(2) [unfolded s']]
      consider
        (u) r1 where "unreserved c" "encodeURIComponent cs = Inr r1" "r = c # r1"
      | (e) r1 where "\<not> unreserved c" "\<not> high_surrogate c" "encodeURIComponent cs = Inr r1"
          "r = escape (unat c) @ r1"
      | (p) d ds r1 where "\<not> unreserved c" "high_surrogate c" "cs = d # ds" "low_surrogate d"
          "encodeURIComponent ds = Inr r1" "r = escape (pair_code_point c d) @ r1"
        using A by blast
      then show ?thesis
      proof cases
        case u
        consider
          (u') r2 where "unreserved c'" "encodeURIComponent cs' = Inr r2" "r = c' # r2"
        | (e') cp r2 where "\<not> unreserved c'" "r = escape cp @ r2"
          using B by blast
        then show ?thesis
        proof cases
          case u'
          then have "c = c'" and "r1 = r2" using u(3) by simp_all
          moreover have "cs = cs'"
            using less.hyps [of cs r1 cs'] u(2) u'(2) \<open>r1 = r2\<close> s by simp
          ultimately show ?thesis using s s' by simp
        next
          case e'
          then have "c = 0x25" using u(3) escape_hd [of cp] by auto
          then show ?thesis using u(1) percent_sign_reserved by simp
        qed
      next
        case e
        consider
          (u') r2 where "unreserved c'" "r = c' # r2"
        | (e') r2 where "\<not> unreserved c'" "\<not> high_surrogate c'"
            "encodeURIComponent cs' = Inr r2" "r = escape (unat c') @ r2"
        | (p') d' r2 where "high_surrogate c'" "low_surrogate d'"
            "r = escape (pair_code_point c' d') @ r2"
          using B by blast
        then show ?thesis
        proof cases
          case u'
          then have "c' = 0x25" using e(4) escape_hd [of "unat c"] by auto
          then show ?thesis using u'(1) percent_sign_reserved by simp
        next
          case e'
          have "unat c < 0x110000" "unat c' < 0x110000"
            using unit_bound [of c] unit_bound [of c'] by simp_all
          then have "unat c = unat c' \<and> r1 = r2"
            using escape_append_inj [of "unat c" r1 "unat c'" r2] e(4) e'(4) by simp
          then have "c = c'" and "r1 = r2" by (simp_all add: unit_eqI)
          moreover have "cs = cs'"
            using less.hyps [of cs r1 cs'] e(3) e'(3) \<open>r1 = r2\<close> s by simp
          ultimately show ?thesis using s s' by simp
        next
          case p'
          have "unat c < 0x110000" using unit_bound [of c] by simp
          then have "unat c = pair_code_point c' d'"
            using escape_append_inj [of "unat c" r1 "pair_code_point c' d'" r2] e(4) p'(3)
              pair_code_point_bounds [OF p'(1,2)] by simp
          then show ?thesis
            using unit_bound [of c] pair_code_point_bounds [OF p'(1,2)] by simp
        qed
      next
        case p
        consider
          (u') r2 where "unreserved c'" "r = c' # r2"
        | (e') r2 where "\<not> high_surrogate c'" "r = escape (unat c') @ r2"
        | (p') d' ds' r2 where "high_surrogate c'" "cs' = d' # ds'" "low_surrogate d'"
            "encodeURIComponent ds' = Inr r2" "r = escape (pair_code_point c' d') @ r2"
          using B by blast
        then show ?thesis
        proof cases
          case u'
          then have "c' = 0x25" using p(6) escape_hd [of "pair_code_point c d"] by auto
          then show ?thesis using u'(1) percent_sign_reserved by simp
        next
          case e'
          have "unat c' < 0x110000" using unit_bound [of c'] by simp
          then have "pair_code_point c d = unat c'"
            using escape_append_inj [of "pair_code_point c d" r1 "unat c'" r2] p(6) e'(2)
              pair_code_point_bounds [OF p(2,4)] by simp
          then show ?thesis
            using unit_bound [of c'] pair_code_point_bounds [OF p(2,4)] by simp
        next
          case p'
          have "pair_code_point c d = pair_code_point c' d' \<and> r1 = r2"
            using escape_append_inj [of "pair_code_point c d" r1 "pair_code_point c' d'" r2]
              p(6) p'(5) pair_code_point_bounds [OF p(2,4)] pair_code_point_bounds [OF p'(1,3)]
            by simp
          then have "c = c'" and "d = d'" and "r1 = r2"
            using pair_code_point_inj [OF p(2,4) p'(1,3)] by simp_all
          moreover have "ds = ds'"
            using less.hyps [of ds r1 ds'] p(5) p'(4) \<open>r1 = r2\<close> s p(3) by simp
          ultimately show ?thesis using s s' p(3) p'(2) by simp
        qed
      qed
    qed
  qed
qed

lemma payload_fields:
  assumes "payload serverTime issue = Inr p"
  shows "\<exists>t e. NewIssue.title issue = Some t \<and> encodeURIComponent t = Inr e \<and>
           IssueData.imageUrl p = js ''https://placehold.co/600x400.png?text='' @ e \<and>
           IssueData.status p = Recebido \<and> IssueData.upvotes p = Some 0 \<and>
           IssueData.comments p = Some [] \<and> IssueData.reportedAt p = Some serverTime"
  using assms by (auto simp: payload_def split: option.splits sum.splits)

lemma addIssueClient_Inr:
  assumes "addIssueClient newId serverTime w issue = (Inr docId, w')"
  shows "docId = newId \<and>
         (\<exists>p. payload serverTime issue = Inr p \<and>
              issue_docs w' = AList.update newId p (issue_docs w))"
  using assms
  by (auto simp: addIssueClient_def addDoc_issue_def updateDoc_user_def Let_def
      split: if_splits option.splits sum.splits prod.splits)

lemma update_member: "(k, v) \<in> set (AList.update k v al)"
  by (induction al) auto

lemma update_entries:
  assumes "distinct (map fst al)" and "(k, v') \<in> set (AList.update k v al)"
  shows "v' = v"
proof -
  have "distinct (map fst (AList.update k v al))"
    using assms(1) by (simp add: distinct_update)
  then have "map_of (AList.update k v al) k = Some v'"
    using assms(2) by simp
  then show ?thesis by (simp add: update_conv')
qed

lemma set_query_issues:
  "set (query_issues w) = {(i, d). (i, d) \<in> set (issue_docs w) \<and> IssueData.reportedAt d \<noteq> None}"
  by (auto simp: query_issues_def)

lemma set_listenToIssues:
  "set (listenToIssues toDate now w) =
     (\<lambda>(i, d). fromFirestore toDate now d i) `
       {(i, d). (i, d) \<in> set (issue_docs w) \<and> IssueData.reportedAt d \<noteq> None}"
  by (simp add: listenToIssues_def snapshot_issues_def set_query_issues)

lemma fromFirestore_initial_values:
  assumes "IssueData.status p = Recebido" and "IssueData.upvotes p = Some 0"
    and "IssueData.comments p = Some []" and "IssueData.imageUrl p = u"
  shows "issue_id (fromFirestore toDate now p i) = i \<and>
         Issue.status (fromFirestore toDate now p i) = Recebido \<and>
         Issue.upvotes (fromFirestore toDate now p i) = 0 \<and>
         Issue.comments (fromFirestore toDate now p i) = [] \<and>
         Issue.imageUrl (fromFirestore toDate now p i) = u"
  using assms by (simp add: fromFirestore_def sortComments_def)

text \<open>
  Claim C9. Whenever \<open>addIssueClient\<close> accepts an input and returns the identifier of the
  new document, the store holds under that identifier a record with the initial status
  (\<open>Recebido\<close>, which the spec calls Received), 0 upvotes, an empty comment list and an
  image reference derived from the input's title \<open>t\<close>: the address
  \<^verbatim>\<open>https://placehold.co/600x400.png?text=\<close> followed by \<open>encodeURIComponent t\<close>, which is \<open>t\<close>
  itself when the title needs no escaping and which no other title \<open>t'\<close> encodes to
  (\<open>encodeURIComponent_inj\<close>). The notification that the subscription
  computes from the store after the call contains an Issue with that identifier, and,
  document identifiers being unique, every Issue with that identifier in the
  notification has exactly those values.
\<close>

theorem addIssueClient_initial_record:
  assumes "addIssueClient newId serverTime w issue = (Inr docId, w')"
  shows "docId = newId \<and>
         (\<exists>t e d. NewIssue.title issue = Some t \<and> encodeURIComponent t = Inr e \<and>
            ((\<forall>c\<in>set t. unreserved c) \<longrightarrow> e = t) \<and>
            (encodeURIComponent t' = Inr e \<longrightarrow> t' = t) \<and>
            map_of (issue_docs w') newId = Some d \<and>
            IssueData.status d = Recebido \<and> IssueData.upvotes d = Some 0 \<and>
            IssueData.comments d = Some [] \<and>
            IssueData.imageUrl d = js ''https://placehold.co/600x400.png?text='' @ e \<and>
            (\<exists>i\<in>set (listenToIssues toDate now w'). issue_id i = newId) \<and>
            (distinct (map fst (issue_docs w)) \<longrightarrow>
               (\<forall>i\<in>set (listenToIssues toDate now w').
                  issue_id i = newId \<longrightarrow>
                    Issue.status i = Recebido \<and> Issue.upvotes i = 0 \<and>
                    Issue.comments i = [] \<and>
                    Issue.imageUrl i = js ''https://placehold.co/600x400.png?text='' @ e)))"
proof -
  from addIssueClient_Inr [OF assms] obtain p where
    docId: "docId = newId" and p: "payload serverTime issue = Inr p"
    and docs: "issue_docs w' = AList.update newId p (issue_docs w)"
    by blast
  from payload_fields [OF p] obtain t e where
    t: "NewIssue.title issue = Some t" and e: "encodeURIComponent t = Inr e"
    and img: "IssueData.imageUrl p = js ''https://placehold.co/600x400.png?text='' @ e"
    and st: "IssueData.status p = Recebido" and up: "IssueData.upvotes p = Some 0"
    and cm: "IssueData.comments p = Some []" and rp: "IssueData.reportedAt p = Some serverTime"
    by blast
  have plain: "(\<forall>c\<in>set t. unreserved c) \<longrightarrow> e = t"
    using e encodeURIComponent_unreserved [of t] by auto
  have only: "encodeURIComponent t' = Inr e \<longrightarrow> t' = t"
    using e encodeURIComponent_inj [of t' e t] by blast
  have stored: "map_of (issue_docs w') newId = Some p"
    using docs by (simp add: update_conv')
  have mem: "(newId, p) \<in> set (issue_docs w')"
    using docs by (simp add: update_member)
  have vals: "\<And>i. issue_id (fromFirestore toDate now p i) = i \<and>
         Issue.status (fromFirestore toDate now p i) = Recebido \<and>
         Issue.upvotes (fromFirestore toDate now p i) = 0 \<and>
         Issue.comments (fromFirestore toDate now p i) = [] \<and>
         Issue.imageUrl (fromFirestore toDate now p i)
           = js ''https://placehold.co/600x400.png?text='' @ e"
    using fromFirestore_initial_values [OF st up cm img] by blast
  have "fromFirestore toDate now p newId \<in> set (listenToIssues toDate now w')"
    using mem rp by (force simp: set_listenToIssues)
  then have appears: "\<exists>i\<in>set (listenToIssues toDate now w'). issue_id i = newId"
    using vals by blast
  have exact: "distinct (map fst (issue_docs w)) \<longrightarrow>
      (\<forall>i\<in>set (listenToIssues toDate now w').
         issue_id i = newId \<longrightarrow>
           Issue.status i = Recebido \<and> Issue.upvotes i = 0 \<and> Issue.comments i = [] \<and>
           Issue.imageUrl i = js ''https://placehold.co/600x400.png?text='' @ e)"
  proof (intro impI ballI)
    fix i
    assume dist: "distinct (map fst (issue_docs w))"
      and i: "i \<in> set (listenToIssues toDate now w')" and idi: "issue_id i = newId"
    from i obtain k d where kd: "(k, d) \<in> set (issue_docs w')"
      and ikd: "i = fromFirestore toDate now d k"
      by (auto simp: set_listenToIssues)
    have "k = newId" using ikd idi by (simp add: fromFirestore_def)
    then have "d = p" using kd docs update_entries [OF dist] by metis
    then show "Issue.status i = Recebido \<and> Issue.upvotes i = 0 \<and> Issue.comments i = [] \<and>
           Issue.imageUrl i = js ''https://placehold.co/600x400.png?text='' @ e"
      using ikd vals by simp
  qed
  show ?thesis
    using docId t e plain only stored st up cm img appears exact by blast
qed

lemma example_title_encoded:
  "encodeURIComponent example_title = Inr (js ''Via%20%C3%A7%F0%9F%9A%A7'')"
  by (simp add: example_title_def js_def unreserved_def low_surrogate_def
      high_surrogate_def pair_code_point_def escape_def utf8_def percent_def hex_digit_def)

lemma example_payload:
  "payload 5 (example_new_issue (Some example_title) (JNumber (Num (-16)))) = Inr example_record"
proof -
  have "trim example_title = example_title"
    and "trim (js ''Large pothole'') = js ''Large pothole''"
    and "trim (js ''Quadra 1'') = js ''Quadra 1''"
    and "js ''Roads'' \<noteq> []"
    by (simp_all add: example_title_def trim_def js_def is_space_def)
  moreover have "js ''https://placehold.co/600x400.png?text='' @ js ''Via%20%C3%A7%F0%9F%9A%A7''
      = js ''https://placehold.co/600x400.png?text=Via%20%C3%A7%F0%9F%9A%A7''"
    by (simp add: js_def)
  ultimately show ?thesis
    by (simp add: payload_def example_new_issue_def example_title_encoded GeoPoint_new_def
        example_record_def)
qed

lemma example_run:
  "addIssueClient ''i3'' 5 example_world
       (example_new_issue (Some example_title) (JNumber (Num (-16))))
     = (Inr ''i3'', example_stored)"
proof -
  have "trim example_title \<noteq> []"
    and "trim (js ''Large pothole'') \<noteq> []"
    and "trim (js ''Quadra 1'') \<noteq> []"
    by (simp_all add: example_title_def trim_def js_def is_space_def)
  then have checks:
    "\<not> not_trimmed (NewIssue.title (example_new_issue (Some example_title) (JNumber (Num (-16)))))"
    "\<not> not_trimmed (NewIssue.description (example_new_issue (Some example_title) (JNumber (Num (-16)))))"
    "\<not> not_trimmed (NewIssue.address (example_new_issue (Some example_title) (JNumber (Num (-16)))))"
    "\<not> invalid_location (NewIssue.location (example_new_issue (Some example_title) (JNumber (Num (-16)))))"
    "NewIssue.reporterId (example_new_issue (Some example_title) (JNumber (Num (-16)))) = Some ''u1''"
    by (simp_all add: not_trimmed_def example_new_issue_def invalid_location_def
        typeof_number_def Number_isNaN_def)
  show ?thesis
    by (simp add: addIssueClient_def checks example_payload addDoc_issue_def updateDoc_user_def
        example_world_def example_stored_def)
qed

lemma example_plain_run:
  "fst (addIssueClient ''i3'' 5 example_world example_plain_issue) = Inr ''i3''"
proof -
  have plain: "\<forall>c\<in>set (js ''Pothole''). unreserved c"
    by (simp add: js_def unreserved_def)
  have "trim (js ''Pothole'') = js ''Pothole''"
    and "trim (js ''Large pothole'') = js ''Large pothole''"
    and "trim (js ''Quadra 1'') = js ''Quadra 1''"
    and "js ''Pothole'' \<noteq> []" and "js ''Large pothole'' \<noteq> []" and "js ''Quadra 1'' \<noteq> []"
    by (simp_all add: trim_def js_def is_space_def)
  then show ?thesis
    by (simp add: addIssueClient_def example_plain_issue_def example_new_issue_def
        not_trimmed_def invalid_location_def typeof_number_def Number_isNaN_def payload_def
        encodeURIComponent_unreserved [OF plain] GeoPoint_new_def addDoc_issue_def
        updateDoc_user_def example_world_def)
qed

theorem addIssueClient_initial_record_witness:
  "addIssueClient ''i3'' 5 example_world
       (example_new_issue (Some example_title) (JNumber (Num (-16))))
     = (Inr ''i3'', example_stored) \<and>
   encodeURIComponent example_title = Inr (js ''Via%20%C3%A7%F0%9F%9A%A7'') \<and>
   distinct (map fst (issue_docs example_world)) \<and>
   listenToIssues (\<lambda>t. t) 9 example_stored = [fromFirestore (\<lambda>t. t) 9 example_record ''i3''] \<and>
   issue_id (fromFirestore (\<lambda>t. t) 9 example_record ''i3'') = ''i3'' \<and>
   Issue.status (fromFirestore (\<lambda>t. t) 9 example_record ''i3'') = Recebido \<and>
   Issue.upvotes (fromFirestore (\<lambda>t. t) 9 example_record ''i3'') = 0 \<and>
   Issue.comments (fromFirestore (\<lambda>t. t) 9 example_record ''i3'') = [] \<and>
   Issue.imageUrl (fromFirestore (\<lambda>t. t) 9 example_record ''i3'')
     = js ''https://placehold.co/600x400.png?text=Via%20%C3%A7%F0%9F%9A%A7'' \<and>
   list_all unreserved (js ''Pothole'') \<and>
   map_option IssueData.imageUrl
       (map_of (issue_docs (snd (addIssueClient ''i3'' 5 example_world example_plain_issue)))
          ''i3'')
     = Some (js ''https://placehold.co/600x400.png?text=Pothole'')"
proof -
  have dist: "distinct (map fst (issue_docs example_world))"
    by (simp add: example_world_def)
  have notified: "listenToIssues (\<lambda>t. t) 9 example_stored
                = [fromFirestore (\<lambda>t. t) 9 example_record ''i3'']"
    by (simp add: listenToIssues_def query_issues_def snapshot_issues_def example_stored_def
        example_data_def example_record_def)
  have ident: "issue_id (fromFirestore (\<lambda>t. t) 9 example_record ''i3'') = ''i3''"
    by (simp add: fromFirestore_def)
  have t: "NewIssue.title (example_new_issue (Some example_title) (JNumber (Num (-16))))
             = Some example_title"
    by (simp add: example_new_issue_def)
  have cat: "js ''https://placehold.co/600x400.png?text='' @ js ''Via%20%C3%A7%F0%9F%9A%A7''
      = js ''https://placehold.co/600x400.png?text=Via%20%C3%A7%F0%9F%9A%A7''"
    by (simp add: js_def)
  have first:
    "Issue.status (fromFirestore (\<lambda>t. t) 9 example_record ''i3'') = Recebido \<and>
     Issue.upvotes (fromFirestore (\<lambda>t. t) 9 example_record ''i3'') = 0 \<and>
     Issue.comments (fromFirestore (\<lambda>t. t) 9 example_record ''i3'') = [] \<and>
     Issue.imageUrl (fromFirestore (\<lambda>t. t) 9 example_record ''i3'')
       = js ''https://placehold.co/600x400.png?text=Via%20%C3%A7%F0%9F%9A%A7''"
    using addIssueClient_initial_record
        [OF example_run, where toDate = "\<lambda>t. t" and now = 9 and t' = example_title]
      example_title_encoded dist t cat notified ident
    by auto
  have plain: "list_all unreserved (js ''Pothole'')"
    by (simp add: js_def unreserved_def)
  have run2: "addIssueClient ''i3'' 5 example_world example_plain_issue
      = (Inr ''i3'', snd (addIssueClient ''i3'' 5 example_world example_plain_issue))"
    using example_plain_run by (metis prod.collapse)
  have t2: "NewIssue.title example_plain_issue = Some (js ''Pothole'')"
    by (simp add: example_plain_issue_def example_new_issue_def)
  have cat2: "js ''https://placehold.co/600x400.png?text='' @ js ''Pothole''
      = js ''https://placehold.co/600x400.png?text=Pothole''"
    by (simp add: js_def)
  have second: "map_option IssueData.imageUrl
       (map_of (issue_docs (snd (addIssueClient ''i3'' 5 example_world example_plain_issue)))
          ''i3'')
     = Some (js ''https://placehold.co/600x400.png?text=Pothole'')"
    using addIssueClient_initial_record
        [OF run2, where toDate = "\<lambda>t. t" and now = 9 and t' = "js ''Pothole''"]
      plain t2 cat2
    by (auto simp: list_all_iff)
  show ?thesis
    using example_run example_title_encoded dist notified ident first plain second
    by blast
qed

lemma deleteCommentFromIssue_unmatched:
  assumes "map_of (issue_docs w) issueId = Some d"
    and "IssueData.comments d = Some cs"
    and "\<forall>c\<in>set cs. comment_id c \<noteq> commentId"
  shows "deleteCommentFromIssue w issueId commentId =
           (Inr (), w\<lparr>requests := requests w @ [GetDoc ''issues'' issueId],
                      console := console w @ [Warn_comentario_nao_encontrado commentId issueId]\<rparr>)"
proof -
  have "find (\<lambda>c. comment_id c = commentId) cs = None"
    using assms(3) by (simp add: find_None_iff)
  then show ?thesis
    using assms(1,2) by (simp add: deleteCommentFromIssue_def getDoc_issue_def)
qed

text \<open>
  Claim C10. When the parent issue document does not exist, \<open>deleteCommentFromIssue\<close>
  throws the error "issue not found" (\<open>Ocorrencia_nao_encontrada\<close>); apart from the record
  of the read request the world is unchanged, so nothing was written. In contrast, when
  the issue exists with a comment list in which no comment has the given identifier, the
  call completes without an error.
\<close>

theorem deleteCommentFromIssue_missing_issue:
  "(map_of (issue_docs w) issueId = None \<longrightarrow>
      deleteCommentFromIssue w issueId commentId =
        (Inl Ocorrencia_nao_encontrada,
         w\<lparr>requests := requests w @ [GetDoc ''issues'' issueId]\<rparr>)) \<and>
   (map_of (issue_docs w) issueId = Some d \<and> IssueData.comments d = Some cs \<and>
    (\<forall>c\<in>set cs. comment_id c \<noteq> commentId) \<longrightarrow>
      fst (deleteCommentFromIssue w issueId commentId) = Inr ())"
  using deleteCommentFromIssue_unmatched [of w issueId d cs commentId]
  by (simp add: deleteCommentFromIssue_def getDoc_issue_def)

theorem deleteCommentFromIssue_missing_issue_witness:
  "map_of (issue_docs example_world) ''i9'' = None \<and>
   deleteCommentFromIssue example_world ''i9'' ''c1'' =
     (Inl Ocorrencia_nao_encontrada, example_world\<lparr>requests := [GetDoc ''issues'' ''i9'']\<rparr>) \<and>
   fst (deleteCommentFromIssue example_world ''i2'' ''c7'') = Inr ()"
  using deleteCommentFromIssue_missing_issue
      [of example_world "''i9''" "''c1''" "example_data None" "[]"]
    deleteCommentFromIssue_missing_issue
      [of example_world "''i2''" "''c7''" "example_data (Some [example_comment ''c1'' 10])"
          "[example_comment ''c1'' 10]"]
  by (simp add: example_world_def example_data_def example_comment_def)

text \<open>
  Claim C8. The claim covers every issue that exists in the store. An issue document
  without a comments field exists in the store (\<open>fromFirestore\<close> provides for it with
  \<^verbatim>\<open>data.comments || []\<close>), and no stored comment matches any identifier there; yet
  \<open>deleteCommentFromIssue\<close> does not complete as a no-op on it but throws a TypeError,
  without logging the warning. For issues that have a comment list the no-op is
  \<open>deleteCommentFromIssue_unmatched\<close>.
\<close>

theorem deleteCommentFromIssue_without_comments_field:
  "map_of (issue_docs example_world) ''i1'' = Some (example_data None) \<and>
   IssueData.comments (example_data None) = None \<and>
   deleteCommentFromIssue example_world ''i1'' ''c1'' =
     (Inl TypeError, example_world\<lparr>requests := [GetDoc ''issues'' ''i1'']\<rparr>)"
  by (simp add: deleteCommentFromIssue_def getDoc_issue_def example_world_def example_data_def)

section \<open>Properties of the map page\<close>

lemma set_foldl_Set_add: "set (foldl Set_add acc xs) = set acc \<union> set xs"
  by (induction xs arbitrary: acc) (auto simp: Set_add_def)

lemma set_allCategories: "set (allCategories list) = Issue.category ` set list"
  by (simp add: allCategories_def Set_of_def set_foldl_Set_add)

lemma onIssuesSnapshot_selects_all:
  assumes "new \<noteq> []"
  shows "selectedCategories (onIssuesSnapshot new s) = allCategories new"
proof -
  have "set (allCategories new) \<noteq> {}"
    using assms by (simp add: set_allCategories)
  then have "allCategories new \<noteq> []" by auto
  then show ?thesis by (simp add: onIssuesSnapshot_def)
qed

text \<open>
  Claim C1. The claim says that a category introduced by a later change of the issue list
  is not added to the selection. On the page it is: after a first notification with one
  issue of category A the user deselects A; a second notification adds an issue of the
  new category B, and the selection becomes A and B. By \<open>onIssuesSnapshot_selects_all\<close>
  every notification with at least one issue selects all categories again.
\<close>

theorem new_category_is_selected_again:
  "allCategories (issues (onIssuesSnapshot [example_issue ''i1'' ''A''] example_page))
     = [js ''A''] \<and>
   selectedCategories
     (handleCategoryChange (js ''A'')
        (onIssuesSnapshot [example_issue ''i1'' ''A''] example_page)) = [] \<and>
   selectedCategories
     (onIssuesSnapshot [example_issue ''i1'' ''A'', example_issue ''i2'' ''B'']
        (handleCategoryChange (js ''A'')
           (onIssuesSnapshot [example_issue ''i1'' ''A''] example_page)))
     = [js ''A'', js ''B'']"
  by (simp add: onIssuesSnapshot_def allCategories_def Set_of_def Set_add_def example_issue_def
      fromFirestore_def handleCategoryChange_def example_page_def initial_page_def js_def)

lemma to_double_small: "\<bar>x\<bar> < 2 ^ 53 \<Longrightarrow> to_double x = x"
  by (simp add: to_double_def)

lemma render_fields:
  "scope.upvotedIssues (render s) = page.upvotedIssues s"
  "scope.appUser (render s) = page.appUser s"
  by (simp_all add: render_def)

lemma handleUpvote_current:
  assumes "page.appUser s = Some uid" and "issueId \<notin> set (page.upvotedIssues s)"
  shows "handleUpvote (render s) s issueId n =
           handleUpvote_settle (render s)
             \<lparr> call_uid = uid, call_issueId = issueId, call_newUpvotes = number_add n 1 \<rparr>
             (s\<lparr>page.upvotedIssues := Set_add (page.upvotedIssues s) issueId\<rparr>)"
  using assms by (simp add: handleUpvote_def handleUpvote_begin_def render_fields)

lemma updateIssueUpvotes_requests:
  "requests (snd (updateIssueUpvotes w issueId m)) = requests w @ [UpdateDoc ''issues'' issueId]"
  by (simp add: updateIssueUpvotes_def updateDoc_issue_def Let_def split: option.splits)



lemma handleUpvote_captured:
  assumes "scope.appUser h = Some uid" and "issueId \<in> set (scope.upvotedIssues h)"
  shows "handleUpvote h s issueId m = s"
  using assms by (simp add: handleUpvote_def handleUpvote_begin_def)

text \<open>
  Claim C6, as amended. For a signed-in user and an issue not yet in the local upvoted
  set: when the issue is in the upvoted set after a first call of \<open>handleUpvote\<close> and the
  component has rendered again, so that the second call goes through the handler that
  captured this set, the second call (with any count \<open>m\<close>) changes nothing, neither state
  nor local storage nor toasts, and the two calls together have sent exactly one request
  to the store. The same holds for a second call made while the first is still awaiting
  its request, through the handler of the render that shows the optimistic set: it
  changes nothing.
\<close>

theorem handleUpvote_twice_rerendered:
  assumes "page.appUser s = Some uid"
    and "issueId \<notin> set (page.upvotedIssues s)"
    and "issueId \<in> set (page.upvotedIssues (handleUpvote (render s) s issueId n))"
  shows "handleUpvote (render (handleUpvote (render s) s issueId n))
           (handleUpvote (render s) s issueId n) issueId m
           = handleUpvote (render s) s issueId n \<and>
         requests (world (handleUpvote (render (handleUpvote (render s) s issueId n))
                            (handleUpvote (render s) s issueId n) issueId m))
           = requests (world s) @ [UpdateDoc ''issues'' issueId] \<and>
         handleUpvote (render (fst (handleUpvote_begin (render s) s issueId n)))
           (fst (handleUpvote_begin (render s) s issueId n)) issueId m
           = fst (handleUpvote_begin (render s) s issueId n)"
proof -
  let ?s1 = "handleUpvote (render s) s issueId n"
  let ?s0 = "fst (handleUpvote_begin (render s) s issueId n)"
  have s1: "?s1 = handleUpvote_settle (render s)
             \<lparr> call_uid = uid, call_issueId = issueId, call_newUpvotes = number_add n 1 \<rparr>
             (s\<lparr>page.upvotedIssues := Set_add (page.upvotedIssues s) issueId\<rparr>)"
    by (rule handleUpvote_current [OF assms(1,2)])
  have user: "scope.appUser (render ?s1) = Some uid"
    using assms(1)
    by (simp add: s1 handleUpvote_settle_def render_fields Let_def
        split: prod.splits sum.splits)
  have captured: "issueId \<in> set (scope.upvotedIssues (render ?s1))"
    using assms(3) by (simp add: render_fields)
  have noop: "handleUpvote (render ?s1) ?s1 issueId m = ?s1"
    by (rule handleUpvote_captured [OF user captured])
  have reqs: "requests (world ?s1) = requests (world s) @ [UpdateDoc ''issues'' issueId]"
    using updateIssueUpvotes_requests [of "world s" issueId "number_add n 1"]
    by (auto simp: s1 handleUpvote_settle_def Let_def split: prod.splits sum.splits)
  have s0: "?s0 = s\<lparr>page.upvotedIssues := Set_add (page.upvotedIssues s) issueId\<rparr>"
    using assms(1,2) by (simp add: handleUpvote_begin_def render_fields)
  have "scope.appUser (render ?s0) = Some uid"
    and "issueId \<in> set (scope.upvotedIssues (render ?s0))"
    using assms(1) by (simp_all add: s0 render_fields Set_add_def)
  then have during: "handleUpvote (render ?s0) ?s0 issueId m = ?s0"
    by (rule handleUpvote_captured)
  show ?thesis using noop reqs during by simp
qed

theorem handleUpvote_twice_rerendered_witness:
  "page.appUser example_page = Some ''u1'' \<and>
   ''i1'' \<notin> set (page.upvotedIssues example_page) \<and>
   page.upvotedIssues (handleUpvote (render example_page) example_page ''i1'' 3) = [''i1''] \<and>
   localStorage (handleUpvote (render example_page) example_page ''i1'' 3)
     = [(''upvotedIssues_u1'', [''i1''])] \<and>
   handleUpvote (render (handleUpvote (render example_page) example_page ''i1'' 3))
       (handleUpvote (render example_page) example_page ''i1'' 3) ''i1'' 3
     = handleUpvote (render example_page) example_page ''i1'' 3 \<and>
   requests (world (handleUpvote (render (handleUpvote (render example_page) example_page ''i1'' 3))
       (handleUpvote (render example_page) example_page ''i1'' 3) ''i1'' 3))
     = [UpdateDoc ''issues'' ''i1'']"
  using handleUpvote_twice_rerendered [of example_page "''u1''" "''i1''" 3 3]
  by (simp add: example_page_def initial_page_def example_world_def updateIssueUpvotes_def
      updateDoc_issue_def handleUpvote_def handleUpvote_begin_def handleUpvote_settle_def
      render_def Set_add_def upvotes_key_def Let_def number_add_def to_double_small)

text \<open>
  Claim C6 as stated does not hold. A signed-in user upvotes issue i1 through the handler
  of one render, and that same handler is called a second time. The issue is in the
  upvoted set after the first call and after the second; but the guard of the second call
  reads the set that the handler captured, which does not contain the issue, and a second
  request is sent.
\<close>

theorem handleUpvote_same_handler_twice:
  "page.appUser example_page = Some ''u1'' \<and>
   ''i1'' \<notin> set (page.upvotedIssues example_page) \<and>
   ''i1'' \<in> set (page.upvotedIssues (handleUpvote (render example_page) example_page ''i1'' 3)) \<and>
   ''i1'' \<in> set (page.upvotedIssues
       (handleUpvote (render example_page)
          (handleUpvote (render example_page) example_page ''i1'' 3) ''i1'' 3)) \<and>
   requests (world
       (handleUpvote (render example_page)
          (handleUpvote (render example_page) example_page ''i1'' 3) ''i1'' 3))
     = [UpdateDoc ''issues'' ''i1'', UpdateDoc ''issues'' ''i1'']"
  by (simp add: example_page_def initial_page_def example_world_def updateIssueUpvotes_def
      updateDoc_issue_def handleUpvote_def handleUpvote_begin_def handleUpvote_settle_def
      render_def Set_add_def upvotes_key_def Let_def number_add_def to_double_small)

end
